theory Spec2Isabelle
  imports Complex_Main
begin

section \<open>Personal Chef: shopping list and calorie calculator\<close>

text \<open>
  A shallow embedding of \<^verbatim>\<open>personal_chef_app.py\<close>: the data classes, the lookup
  \<^verbatim>\<open>ingredient_map\<close>, the nutrition helper \<^verbatim>\<open>kcal_for_item\<close> and the calculation
  \<^verbatim>\<open>compute_rows\<close>.

  Conventions of the model.
  \<^item> Python's \<^verbatim>\<open>float\<close> is \<^typ>\<open>real\<close>: arithmetic is exact, there is no rounding,
    no infinity and no NaN. Python's \<^verbatim>\<open>int\<close> is \<^typ>\<open>int\<close>.
  \<^item> \<^verbatim>\<open>Optional[float]\<close> is \<^typ>\<open>real option\<close>.
  \<^item> Units and purchase units are strings, as in the source, which compares them
    with the literals \<^verbatim>\<open>"g"\<close>, \<^verbatim>\<open>"ml"\<close>, \<^verbatim>\<open>"un"\<close> and \<^verbatim>\<open>"kg"\<close>.
  \<^item> The session state read by \<^verbatim>\<open>ingredient_map\<close> is an explicit argument: the list
    of ingredients.
  \<^item> A Python \<^verbatim>\<open>dict\<close> whose insertion order matters (\<^verbatim>\<open>agg\<close>) is an association
    list with distinct keys, in insertion order.
  \<^item> Float division raises \<^verbatim>\<open>ZeroDivisionError\<close> on a zero divisor; the model's
    division returns the error as a value, and so does everything that divides.
\<close>

subsection \<open>Data models\<close>

record Ingredient =
  name :: string
  unitPurchase :: string
  rl :: real
  price :: "real option"
  kcal_per_100g :: "real option"
  kcal_per_unit :: "real option"
  density_g_per_ml :: "real option"

text \<open>The field \<^verbatim>\<open>note\<close> of the source is \<open>note_text\<close> here.\<close>

record RecipeItem =
  ingredient :: string
  perPersonPL :: real
  unit :: string
  fc :: real
  note_text :: string

text \<open>The field \<^verbatim>\<open>name\<close> of \<^verbatim>\<open>Recipe\<close> is \<open>recipe_name\<close> here.\<close>

record Recipe =
  recipe_name :: string
  items :: "RecipeItem list"

text \<open>
  The dictionary stored under each key of \<^verbatim>\<open>agg\<close>. Its key \<^verbatim>\<open>"Un"\<close> is the field
  \<open>Unid\<close> here.
\<close>

record agg_entry =
  Ingrediente :: string
  UnitCompra :: string
  PL_pessoa :: real
  Unid :: string
  Pessoas :: int
  RL :: real
  FC :: real
  Obs :: string

text \<open>
  One output row. The columns of the source, in order: \<^verbatim>\<open>Ingrediente\<close>,
  \<^verbatim>\<open>Un. compra\<close>, \<^verbatim>\<open>PL/pessoa\<close>, \<^verbatim>\<open>Un (g/ml/un)\<close>, \<^verbatim>\<open>Pessoas\<close>, \<^verbatim>\<open>PL total\<close>,
  \<^verbatim>\<open>RL\<close>, \<^verbatim>\<open>PB total\<close>, \<^verbatim>\<open>Qtd p/ compra\<close>, \<^verbatim>\<open>Preco (un. compra)\<close>, \<^verbatim>\<open>Custo\<close>,
  \<^verbatim>\<open>FC\<close>, \<^verbatim>\<open>Peso final/pessoa\<close>, \<^verbatim>\<open>Peso final total\<close>,
  \<^verbatim>\<open>kcal/pessoa (ingrediente)\<close>, \<^verbatim>\<open>Obs\<close>.
\<close>

record row =
  r_Ingrediente :: string
  r_Un_compra :: string
  r_PL_pessoa :: real
  r_Un :: string
  r_Pessoas :: int
  r_PL_total :: real
  r_RL :: real
  r_PB_total :: real
  r_Qtd_compra :: real
  r_Preco :: "real option"
  r_Custo :: "real option"
  r_FC :: real
  r_Peso_final_pessoa :: real
  r_Peso_final_total :: real
  r_kcal_pessoa :: "real option"
  r_Obs :: string

record summary =
  kcal_por_pessoa :: real
  peso_servido_por_pessoa_g :: real
  kcal_por_grama :: real
  kcal_por_200g :: real
  kcal_totais_receita :: real

datatype py_error = ZeroDivisionError

subsection \<open>Helpers\<close>

text \<open>Float division \<^verbatim>\<open>a / b\<close>.\<close>

definition py_div :: "real \<Rightarrow> real \<Rightarrow> py_error + real" where
  "py_div a b = (if b = 0 then Inl ZeroDivisionError else Inr (a / b))"

text \<open>
  \<^verbatim>\<open>ingredient_map\<close>: the dict comprehension \<^verbatim>\<open>{ing.name: ing for ing in ...}\<close>; a later
  ingredient of the same name replaces an earlier one.
\<close>

definition ingredient_map :: "Ingredient list \<Rightarrow> (string \<rightharpoonup> Ingredient)" where
  "ingredient_map ings = foldl (\<lambda>m ing. m(name ing \<mapsto> ing)) Map.empty ings"

text \<open>\<^verbatim>\<open>kcal_for_item(ing, cooked_weight_g, unit)\<close>.\<close>

definition kcal_for_item :: "Ingredient \<Rightarrow> real \<Rightarrow> string \<Rightarrow> py_error + real option" where
  "kcal_for_item ing cooked_weight_g u =
     (if u = ''un'' then
        (case kcal_per_unit ing of
           None \<Rightarrow> Inr None
         | Some ku \<Rightarrow> Inr (Some (ku * cooked_weight_g)))
      else
        (case kcal_per_100g ing of
           None \<Rightarrow> Inr None
         | Some k100 \<Rightarrow>
             (let grams =
                (if u = ''ml'' then
                   (let dens = (case density_g_per_ml ing of Some d \<Rightarrow> d | None \<Rightarrow> 1)
                    in cooked_weight_g * dens)
                 else cooked_weight_g)
              in (case py_div (k100 * grams) 100 of
                    Inl e \<Rightarrow> Inl e
                  | Inr q \<Rightarrow> Inr (Some q)))))"

subsection \<open>The calculation \<^verbatim>\<open>compute_rows\<close>\<close>

text \<open>The key of a recipe line: \<^verbatim>\<open>f"{it.ingredient}__{it.unit}"\<close>.\<close>

definition key_of :: "RecipeItem \<Rightarrow> string" where
  "key_of it = ingredient it @ ''__'' @ unit it"

text \<open>\<^verbatim>\<open>it.fc if it.fc else 1.0\<close>: a zero factor is falsy.\<close>

definition fc_or_one :: "RecipeItem \<Rightarrow> real" where
  "fc_or_one it = (if fc it \<noteq> 0 then fc it else 1)"

text \<open>
  One iteration of the aggregation loop over \<^verbatim>\<open>recipe.items\<close>. A new key is appended;
  an existing key has \<^verbatim>\<open>PL_pessoa\<close> increased and \<^verbatim>\<open>FC\<close> replaced, and nothing else.
\<close>

definition agg_step ::
  "(string \<rightharpoonup> Ingredient) \<Rightarrow> int \<Rightarrow> (string \<times> agg_entry) list \<Rightarrow> RecipeItem
     \<Rightarrow> (string \<times> agg_entry) list" where
  "agg_step ing_idx people agg it =
     (let key = key_of it;
          ing = ing_idx (ingredient it)
      in if key \<notin> set (map fst agg) then
           agg @ [(key,
             \<lparr> Ingrediente = ingredient it,
               UnitCompra = (case ing of Some i \<Rightarrow> unitPurchase i | None \<Rightarrow> ''kg''),
               PL_pessoa = perPersonPL it,
               Unid = unit it,
               Pessoas = people,
               RL = (case ing of Some i \<Rightarrow> rl i | None \<Rightarrow> 1),
               FC = fc_or_one it,
               Obs = note_text it \<rparr>)]
         else
           map (\<lambda>(k, r). if k = key
                  then (k, r\<lparr> PL_pessoa := PL_pessoa r + perPersonPL it, FC := fc_or_one it \<rparr>)
                  else (k, r)) agg)"

definition aggregate ::
  "(string \<rightharpoonup> Ingredient) \<Rightarrow> int \<Rightarrow> RecipeItem list \<Rightarrow> (string \<times> agg_entry) list" where
  "aggregate ing_idx people its = foldl (agg_step ing_idx people) [] its"

text \<open>The loop that adds up \<^verbatim>\<open>served_total_per_person_g\<close> over \<^verbatim>\<open>agg.values()\<close>.\<close>

definition served_total_per_person_g :: "(string \<times> agg_entry) list \<Rightarrow> real" where
  "served_total_per_person_g agg =
     foldl (\<lambda>s r. if Unid r \<noteq> ''un'' then s + PL_pessoa r * FC r else s) 0 (map snd agg)"

text \<open>
  The scale: \<^verbatim>\<open>target and target > 0 and served > 0\<close>; \<^verbatim>\<open>None\<close> and \<^verbatim>\<open>0.0\<close> are falsy.
\<close>

definition compute_scale :: "real option \<Rightarrow> real \<Rightarrow> py_error + real" where
  "compute_scale target_served_per_person_g served =
     (case target_served_per_person_g of
        None \<Rightarrow> Inr 1
      | Some t \<Rightarrow> if t \<noteq> 0 \<and> t > 0 \<and> served > 0 then py_div t served else Inr 1)"

text \<open>The body of the second loop, up to the row it appends.\<close>

definition row_of :: "(string \<rightharpoonup> Ingredient) \<Rightarrow> real \<Rightarrow> agg_entry \<Rightarrow> py_error + row" where
  "row_of ing_idx scale r =
     (let pl_pessoa_scaled = PL_pessoa r * scale;
          pl_total = pl_pessoa_scaled * of_int (Pessoas r);
          rl_eff = (if RL r > 0 then RL r else 1)
      in case py_div pl_total rl_eff of
           Inl e \<Rightarrow> Inl e
         | Inr pb_total \<Rightarrow>
            (case (if UnitCompra r = ''kg'' \<and> Unid r = ''g'' then py_div pb_total 1000
                   else if UnitCompra r = ''ml'' \<and> Unid r = ''ml'' then Inr pb_total
                   else if UnitCompra r = ''un'' \<and> Unid r = ''un'' then Inr pb_total
                   else Inr pb_total) of
               Inl e \<Rightarrow> Inl e
             | Inr purchase_qty \<Rightarrow>
                (let ing = ing_idx (Ingrediente r);
                     price_v = (case ing of Some i \<Rightarrow> price i | None \<Rightarrow> None);
                     cost = (case price_v of Some p \<Rightarrow> Some (purchase_qty * p) | None \<Rightarrow> None);
                     per_person_cooked = pl_pessoa_scaled * FC r;
                     total_cooked = pl_total * FC r
                 in case (case ing of
                            None \<Rightarrow> Inr None
                          | Some i \<Rightarrow>
                              if Unid r = ''g'' \<or> Unid r = ''ml'' then kcal_for_item i per_person_cooked (Unid r)
                              else if Unid r = ''un'' then kcal_for_item i per_person_cooked ''un''
                              else Inr None) of
                      Inl e \<Rightarrow> Inl e
                    | Inr kcal_this \<Rightarrow>
                        Inr \<lparr> r_Ingrediente = Ingrediente r,
                              r_Un_compra = UnitCompra r,
                              r_PL_pessoa = pl_pessoa_scaled,
                              r_Un = Unid r,
                              r_Pessoas = Pessoas r,
                              r_PL_total = pl_total,
                              r_RL = rl_eff,
                              r_PB_total = pb_total,
                              r_Qtd_compra = purchase_qty,
                              r_Preco = price_v,
                              r_Custo = cost,
                              r_FC = FC r,
                              r_Peso_final_pessoa = per_person_cooked,
                              r_Peso_final_total = total_cooked,
                              r_kcal_pessoa = kcal_this,
                              r_Obs = Obs r \<rparr>)))"

text \<open>
  The second loop over \<^verbatim>\<open>agg.items()\<close>, with its three accumulators \<^verbatim>\<open>rows\<close>,
  \<^verbatim>\<open>kcal_person\<close> and \<^verbatim>\<open>total_served_weight_per_person\<close>.
\<close>

fun rows_loop ::
  "(string \<rightharpoonup> Ingredient) \<Rightarrow> real \<Rightarrow> (string \<times> agg_entry) list \<Rightarrow> row list \<times> real \<times> real
     \<Rightarrow> py_error + (row list \<times> real \<times> real)" where
  "rows_loop ing_idx scale [] acc = Inr acc"
| "rows_loop ing_idx scale ((k, r) # rest) (rows, kcal_person, total_served) =
     (case row_of ing_idx scale r of
        Inl e \<Rightarrow> Inl e
      | Inr rw \<Rightarrow>
          rows_loop ing_idx scale rest
            (rows @ [rw],
             (case r_kcal_pessoa rw of Some kc \<Rightarrow> kcal_person + kc | None \<Rightarrow> kcal_person),
             (if Unid r \<noteq> ''un'' then total_served + r_Peso_final_pessoa rw else total_served)))"

text \<open>
  The summary dictionary. \<^verbatim>\<open>int(df["Pessoas"].iloc[0]) if not df.empty else people\<close>
  reads the first row when there is one.
\<close>

definition make_summary :: "row list \<Rightarrow> int \<Rightarrow> real \<Rightarrow> real \<Rightarrow> py_error + summary" where
  "make_summary rows people kcal_person total_served =
     (let kpp = (if kcal_person \<noteq> 0 then kcal_person else 0);
          psp = (if total_served \<noteq> 0 then total_served else 0)
      in if psp > 0 then
           (case py_div kpp psp of
              Inl e \<Rightarrow> Inl e
            | Inr kpg \<Rightarrow>
                Inr \<lparr> kcal_por_pessoa = kpp,
                      peso_servido_por_pessoa_g = psp,
                      kcal_por_grama = kpg,
                      kcal_por_200g = kpg * 200,
                      kcal_totais_receita =
                        kpp * of_int (case rows of [] \<Rightarrow> people | rw # _ \<Rightarrow> r_Pessoas rw) \<rparr>)
         else
           Inr \<lparr> kcal_por_pessoa = kpp,
                 peso_servido_por_pessoa_g = psp,
                 kcal_por_grama = 0,
                 kcal_por_200g = 0,
                 kcal_totais_receita = 0 \<rparr>)"

definition compute_rows ::
  "Ingredient list \<Rightarrow> Recipe \<Rightarrow> int \<Rightarrow> real option \<Rightarrow> py_error + (row list \<times> summary)" where
  "compute_rows ingredients recipe people target_served_per_person_g =
     (let ing_idx = ingredient_map ingredients;
          agg = aggregate ing_idx people (items recipe)
      in case compute_scale target_served_per_person_g (served_total_per_person_g agg) of
           Inl e \<Rightarrow> Inl e
         | Inr scale \<Rightarrow>
            (case rows_loop ing_idx scale agg ([], 0, 0) of
               Inl e \<Rightarrow> Inl e
             | Inr (rows, kcal_person, total_served) \<Rightarrow>
                (case make_summary rows people kcal_person total_served of
                   Inl e \<Rightarrow> Inl e
                 | Inr s \<Rightarrow> Inr (rows, s))))"

section \<open>Closed forms and vocabulary of the properties\<close>

text \<open>
  The distinct elements of a list, in the order in which each first occurs. This is the
  order in which a Python \<^verbatim>\<open>dict\<close> lists keys that were inserted one after another.
\<close>

definition first_occurrences :: "'a list \<Rightarrow> 'a list" where
  "first_occurrences xs = rev (remdups (rev xs))"

text \<open>
  The group that a non-empty run \<open>ls\<close> of recipe lines with one key is aggregated to, written
  as a closed form of the loop: identity, purchase unit, yield and note come from the first
  line, the net weight is summed, the cooking factor comes from the last line.
\<close>

definition group_of :: "(string \<rightharpoonup> Ingredient) \<Rightarrow> int \<Rightarrow> RecipeItem list \<Rightarrow> agg_entry" where
  "group_of ing_idx people ls =
     \<lparr> Ingrediente = ingredient (hd ls),
       UnitCompra = (case ing_idx (ingredient (hd ls)) of Some i \<Rightarrow> unitPurchase i | None \<Rightarrow> ''kg''),
       PL_pessoa = sum_list (map perPersonPL ls),
       Unid = unit (hd ls),
       Pessoas = people,
       RL = (case ing_idx (ingredient (hd ls)) of Some i \<Rightarrow> rl i | None \<Rightarrow> 1),
       FC = fc_or_one (last ls),
       Obs = note_text (hd ls) \<rparr>"

text \<open>The lines of a recipe that have a given key, in recipe order.\<close>

definition lines_of :: "string \<Rightarrow> RecipeItem list \<Rightarrow> RecipeItem list" where
  "lines_of k its = filter (\<lambda>it. key_of it = k) its"

text \<open>
  The calories per person of a group, as the second loop of \<^verbatim>\<open>compute_rows\<close> obtains them
  from \<^verbatim>\<open>kcal_for_item\<close>: by catalog entry, consumption unit and served quantity.
\<close>

definition group_kcal :: "(string \<rightharpoonup> Ingredient) \<Rightarrow> string \<Rightarrow> string \<Rightarrow> real \<Rightarrow> real option" where
  "group_kcal ing_idx nm u served =
     (case ing_idx nm of
        None \<Rightarrow> None
      | Some ing \<Rightarrow>
          if u = ''un'' then map_option (\<lambda>ku. ku * served) (kcal_per_unit ing)
          else if u = ''g'' then map_option (\<lambda>k. k * served / 100) (kcal_per_100g ing)
          else if u = ''ml'' then
            map_option (\<lambda>k. k * (served * (case density_g_per_ml ing of Some d \<Rightarrow> d | None \<Rightarrow> 1)) / 100)
              (kcal_per_100g ing)
          else None)"

text \<open>The row and the scale that the code computes, read off the results.\<close>

definition group_row :: "(string \<rightharpoonup> Ingredient) \<Rightarrow> real \<Rightarrow> agg_entry \<Rightarrow> row" where
  "group_row ing_idx scale r = projr (row_of ing_idx scale r)"

definition scale_of :: "real option \<Rightarrow> real \<Rightarrow> real" where
  "scale_of target served = projr (compute_scale target served)"

text \<open>The aggregated groups and the scale of one call of \<^verbatim>\<open>compute_rows\<close>.\<close>

definition recipe_groups :: "Ingredient list \<Rightarrow> Recipe \<Rightarrow> int \<Rightarrow> (string \<times> agg_entry) list" where
  "recipe_groups ings recipe people = aggregate (ingredient_map ings) people (items recipe)"

definition recipe_scale :: "Ingredient list \<Rightarrow> Recipe \<Rightarrow> int \<Rightarrow> real option \<Rightarrow> real" where
  "recipe_scale ings recipe people target =
     scale_of target (served_total_per_person_g (recipe_groups ings recipe people))"

text \<open>
  The consumption units of the data model: \<^verbatim>\<open>"g" | "ml" | "un"\<close>, as the comment on
  \<^verbatim>\<open>RecipeItem.unit\<close> and the recipe editor's select box have them.
\<close>

definition valid_unit :: "string \<Rightarrow> bool" where
  "valid_unit u \<longleftrightarrow> u = ''g'' \<or> u = ''ml'' \<or> u = ''un''"

definition valid_units :: "RecipeItem list \<Rightarrow> bool" where
  "valid_units its \<longleftrightarrow> (\<forall>it \<in> set its. valid_unit (unit it))"

text \<open>The (ingredient, unit) pair of a recipe line, and the key built from a pair.\<close>

definition pair_of :: "RecipeItem \<Rightarrow> string \<times> string" where
  "pair_of it = (ingredient it, unit it)"

definition pair_key :: "string \<times> string \<Rightarrow> string" where
  "pair_key p = fst p @ ''__'' @ snd p"

subsection \<open>Sample data\<close>

text \<open>
  Two entries of \<^verbatim>\<open>SAMPLE_INGREDIENTS\<close> and small recipes over them; the first recipe
  with its row and summary is the end-to-end example of the specification.
\<close>

definition sample_chicken :: Ingredient where
  "sample_chicken =
     \<lparr> name = ''Peito de frango'', unitPurchase = ''kg'', rl = 0.90, price = Some 22.90,
       kcal_per_100g = Some 165, kcal_per_unit = None, density_g_per_ml = None \<rparr>"

definition sample_egg :: Ingredient where
  "sample_egg =
     \<lparr> name = ''Ovo'', unitPurchase = ''un'', rl = 1.00, price = Some 0.90,
       kcal_per_100g = None, kcal_per_unit = Some 68, density_g_per_ml = None \<rparr>"

definition chicken_recipe :: Recipe where
  "chicken_recipe =
     \<lparr> recipe_name = ''Frango grelhado'',
       items = [\<lparr> ingredient = ''Peito de frango'', perPersonPL = 150, unit = ''g'', fc = 0.88,
                  note_text = '''' \<rparr>] \<rparr>"

definition chicken_row :: row where
  "chicken_row =
     \<lparr> r_Ingrediente = ''Peito de frango'', r_Un_compra = ''kg'', r_PL_pessoa = 150, r_Un = ''g'',
       r_Pessoas = 1, r_PL_total = 150, r_RL = 9 / 10, r_PB_total = 500 / 3, r_Qtd_compra = 1 / 6,
       r_Preco = Some (229 / 10), r_Custo = Some (229 / 60), r_FC = 22 / 25,
       r_Peso_final_pessoa = 132, r_Peso_final_total = 132, r_kcal_pessoa = Some (1089 / 5),
       r_Obs = '''' \<rparr>"

definition chicken_summary :: summary where
  "chicken_summary =
     \<lparr> kcal_por_pessoa = 1089 / 5, peso_servido_por_pessoa_g = 132, kcal_por_grama = 33 / 20,
       kcal_por_200g = 330, kcal_totais_receita = 1089 / 5 \<rparr>"

definition mixed_recipe :: Recipe where
  "mixed_recipe =
     \<lparr> recipe_name = ''Frango com ovo'',
       items = [\<lparr> ingredient = ''Peito de frango'', perPersonPL = 100, unit = ''g'', fc = 0.88,
                  note_text = ''grelhado'' \<rparr>,
                \<lparr> ingredient = ''Ovo'', perPersonPL = 1, unit = ''un'', fc = 1,
                  note_text = ''cozido'' \<rparr>,
                \<lparr> ingredient = ''Peito de frango'', perPersonPL = 50, unit = ''g'', fc = 0.5,
                  note_text = ''desfiado'' \<rparr>,
                \<lparr> ingredient = ''Sal'', perPersonPL = 5, unit = ''g'', fc = 1,
                  note_text = '''' \<rparr>] \<rparr>"

definition egg_recipe :: Recipe where
  "egg_recipe =
     \<lparr> recipe_name = ''Ovos'',
       items = [\<lparr> ingredient = ''Ovo'', perPersonPL = 1, unit = ''un'', fc = 1,
                  note_text = ''cozido'' \<rparr>,
                \<lparr> ingredient = ''Ovo'', perPersonPL = 2, unit = ''un'', fc = 1,
                  note_text = ''frito'' \<rparr>] \<rparr>"

definition salt_line :: RecipeItem where
  "salt_line = \<lparr> ingredient = ''Sal'', perPersonPL = 5, unit = ''g'', fc = 1, note_text = [] \<rparr>"

section \<open>Properties\<close>

subsection \<open>The aggregation loop in closed form\<close>

lemma first_occurrences_Nil: "first_occurrences [] = []"
  by (simp add: first_occurrences_def)

lemma first_occurrences_snoc:
  "first_occurrences (xs @ [x]) = (if x \<in> set xs then first_occurrences xs else first_occurrences xs @ [x])"
  by (simp add: first_occurrences_def)

lemma set_first_occurrences: "set (first_occurrences xs) = set xs"
  by (simp add: first_occurrences_def)

lemma distinct_first_occurrences: "distinct (first_occurrences xs)"
  by (simp add: first_occurrences_def)

lemma group_of_single:
  "group_of ing_idx people [x] =
     \<lparr> Ingrediente = ingredient x,
       UnitCompra = (case ing_idx (ingredient x) of Some i \<Rightarrow> unitPurchase i | None \<Rightarrow> ''kg''),
       PL_pessoa = perPersonPL x,
       Unid = unit x,
       Pessoas = people,
       RL = (case ing_idx (ingredient x) of Some i \<Rightarrow> rl i | None \<Rightarrow> 1),
       FC = fc_or_one x,
       Obs = note_text x \<rparr>"
  by (simp add: group_of_def)

lemma group_of_snoc:
  "ls \<noteq> [] \<Longrightarrow> group_of ing_idx people (ls @ [x]) =
     (group_of ing_idx people ls)
       \<lparr> PL_pessoa := PL_pessoa (group_of ing_idx people ls) + perPersonPL x, FC := fc_or_one x \<rparr>"
  by (simp add: group_of_def)

lemma lines_of_snoc:
  "lines_of k (xs @ [x]) = (if key_of x = k then lines_of k xs @ [x] else lines_of k xs)"
  by (simp add: lines_of_def)

lemma lines_of_empty_iff: "lines_of k xs = [] \<longleftrightarrow> k \<notin> key_of ` set xs"
  by (auto simp: lines_of_def filter_empty_conv)

lemma aggregate_snoc:
  "aggregate ing_idx people (xs @ [x]) = agg_step ing_idx people (aggregate ing_idx people xs) x"
  by (simp add: aggregate_def)

lemma aggregate_eq:
  "aggregate ing_idx people its =
     map (\<lambda>k. (k, group_of ing_idx people (lines_of k its))) (first_occurrences (map key_of its))"
proof (induction its rule: rev_induct)
  case Nil
  show ?case by (simp add: aggregate_def first_occurrences_Nil)
next
  case (snoc x xs)
  let ?K = "first_occurrences (map key_of xs)"
  have keys: "set (map fst (aggregate ing_idx people xs)) = key_of ` set xs"
    by (simp add: snoc.IH set_first_occurrences comp_def)
  show ?case
  proof (cases "key_of x \<in> key_of ` set xs")
    case False
    have same: "\<And>k. k \<in> set ?K \<Longrightarrow> lines_of k (xs @ [x]) = lines_of k xs"
      using False by (auto simp: lines_of_snoc set_first_occurrences)
    have new: "lines_of (key_of x) (xs @ [x]) = [x]"
      using False by (simp add: lines_of_snoc lines_of_empty_iff)
    have "aggregate ing_idx people (xs @ [x]) =
            aggregate ing_idx people xs @ [(key_of x, group_of ing_idx people [x])]"
      using False keys by (simp add: aggregate_snoc agg_step_def Let_def group_of_single)
    also have "\<dots> = map (\<lambda>k. (k, group_of ing_idx people (lines_of k (xs @ [x])))) (?K @ [key_of x])"
      using same by (simp add: snoc.IH new)
    finally show ?thesis
      using False by (simp add: first_occurrences_snoc)
  next
    case True
    have upd: "\<And>k. k \<in> set ?K \<Longrightarrow>
        (if k = key_of x
         then (k, (group_of ing_idx people (lines_of k xs))
                    \<lparr> PL_pessoa := PL_pessoa (group_of ing_idx people (lines_of k xs)) + perPersonPL x,
                      FC := fc_or_one x \<rparr>)
         else (k, group_of ing_idx people (lines_of k xs)))
        = (k, group_of ing_idx people (lines_of k (xs @ [x])))"
    proof -
      fix k assume "k \<in> set ?K"
      then have "lines_of k xs \<noteq> []"
        by (simp add: lines_of_empty_iff set_first_occurrences)
      then show "?thesis k"
        by (cases "k = key_of x") (simp_all add: lines_of_snoc group_of_snoc)
    qed
    have "aggregate ing_idx people (xs @ [x]) =
            map (\<lambda>(k, r). if k = key_of x
                   then (k, r\<lparr> PL_pessoa := PL_pessoa r + perPersonPL x, FC := fc_or_one x \<rparr>)
                   else (k, r)) (aggregate ing_idx people xs)"
      using True keys by (simp add: aggregate_snoc agg_step_def Let_def)
    also have "\<dots> = map (\<lambda>k. (k, group_of ing_idx people (lines_of k (xs @ [x])))) ?K"
      using upd by (simp add: snoc.IH comp_def)
    finally show ?thesis
      using True by (simp add: first_occurrences_snoc)
  qed
qed

subsection \<open>Rows, scale and summary in closed form\<close>

lemma py_div_Inr: "b \<noteq> 0 \<Longrightarrow> py_div a b = Inr (a / b)"
  by (simp add: py_div_def)

lemma kcal_for_item_un:
  "kcal_for_item ing w ''un'' = Inr (map_option (\<lambda>ku. ku * w) (kcal_per_unit ing))"
  by (simp add: kcal_for_item_def split: option.splits)

lemma kcal_for_item_g:
  "kcal_for_item ing w ''g'' = Inr (map_option (\<lambda>k. k * w / 100) (kcal_per_100g ing))"
  by (simp add: kcal_for_item_def py_div_def split: option.splits)

lemma kcal_for_item_ml:
  "kcal_for_item ing w ''ml'' =
     Inr (map_option (\<lambda>k. k * (w * (case density_g_per_ml ing of Some d \<Rightarrow> d | None \<Rightarrow> 1)) / 100)
            (kcal_per_100g ing))"
  by (simp add: kcal_for_item_def py_div_def split: option.splits)

lemma row_of_eq:
  "row_of ing_idx scale r =
     Inr \<lparr> r_Ingrediente = Ingrediente r,
           r_Un_compra = UnitCompra r,
           r_PL_pessoa = PL_pessoa r * scale,
           r_Un = Unid r,
           r_Pessoas = Pessoas r,
           r_PL_total = PL_pessoa r * scale * of_int (Pessoas r),
           r_RL = (if RL r > 0 then RL r else 1),
           r_PB_total = PL_pessoa r * scale * of_int (Pessoas r) / (if RL r > 0 then RL r else 1),
           r_Qtd_compra =
             (if UnitCompra r = ''kg'' \<and> Unid r = ''g''
              then PL_pessoa r * scale * of_int (Pessoas r) / (if RL r > 0 then RL r else 1) / 1000
              else PL_pessoa r * scale * of_int (Pessoas r) / (if RL r > 0 then RL r else 1)),
           r_Preco = (case ing_idx (Ingrediente r) of Some i \<Rightarrow> price i | None \<Rightarrow> None),
           r_Custo =
             map_option
               (\<lambda>p. (if UnitCompra r = ''kg'' \<and> Unid r = ''g''
                     then PL_pessoa r * scale * of_int (Pessoas r) / (if RL r > 0 then RL r else 1) / 1000
                     else PL_pessoa r * scale * of_int (Pessoas r) / (if RL r > 0 then RL r else 1)) * p)
               (case ing_idx (Ingrediente r) of Some i \<Rightarrow> price i | None \<Rightarrow> None),
           r_FC = FC r,
           r_Peso_final_pessoa = PL_pessoa r * scale * FC r,
           r_Peso_final_total = PL_pessoa r * scale * of_int (Pessoas r) * FC r,
           r_kcal_pessoa = group_kcal ing_idx (Ingrediente r) (Unid r) (PL_pessoa r * scale * FC r),
           r_Obs = Obs r \<rparr>"
  by (simp add: row_of_def Let_def py_div_def group_kcal_def kcal_for_item_un kcal_for_item_g
      kcal_for_item_ml split: option.splits)

lemma row_of_group_row: "row_of ing_idx scale r = Inr (group_row ing_idx scale r)"
  by (simp add: group_row_def row_of_eq)

lemmas group_row_eq = group_row_def [unfolded row_of_eq sum.sel]

lemma compute_scale_eq:
  "compute_scale target served =
     Inr (case target of None \<Rightarrow> 1 | Some t \<Rightarrow> if t > 0 \<and> served > 0 then t / served else 1)"
  by (auto simp: compute_scale_def py_div_def split: option.splits)

lemma scale_of_eq:
  "scale_of target served =
     (case target of None \<Rightarrow> 1 | Some t \<Rightarrow> if t > 0 \<and> served > 0 then t / served else 1)"
  by (simp add: scale_of_def compute_scale_eq)

lemma compute_scale_scale_of: "compute_scale target served = Inr (scale_of target served)"
  by (simp add: scale_of_eq compute_scale_eq)

lemma rows_loop_eq:
  "rows_loop ing_idx scale agg (rows, kcal_person, total_served) =
     Inr (rows @ map (\<lambda>(k, r). group_row ing_idx scale r) agg,
          kcal_person + (\<Sum>(k, r)\<leftarrow>agg. case r_kcal_pessoa (group_row ing_idx scale r) of
                                          Some kc \<Rightarrow> kc | None \<Rightarrow> 0),
          total_served + (\<Sum>(k, r)\<leftarrow>agg. if Unid r \<noteq> ''un''
                                          then r_Peso_final_pessoa (group_row ing_idx scale r) else 0))"
proof (induction agg arbitrary: rows kcal_person total_served)
  case Nil
  show ?case by simp
next
  case (Cons kr agg)
  obtain k r where kr: "kr = (k, r)" by (cases kr)
  show ?case
    unfolding kr
    by (simp add: row_of_group_row Cons.IH split: option.splits)
qed

lemma make_summary_eq:
  "make_summary rows people kcal_person total_served =
     Inr \<lparr> kcal_por_pessoa = kcal_person,
           peso_servido_por_pessoa_g = total_served,
           kcal_por_grama = (if total_served > 0 then kcal_person / total_served else 0),
           kcal_por_200g = (if total_served > 0 then kcal_person / total_served * 200 else 0),
           kcal_totais_receita =
             (if total_served > 0
              then kcal_person * of_int (case rows of [] \<Rightarrow> people | rw # _ \<Rightarrow> r_Pessoas rw)
              else 0) \<rparr>"
  by (simp add: make_summary_def py_div_def Let_def)

lemma served_total_eq:
  "served_total_per_person_g agg =
     (\<Sum>(k, r)\<leftarrow>agg. if Unid r \<noteq> ''un'' then PL_pessoa r * FC r else 0)"
proof -
  have "\<And>s. foldl (\<lambda>s r. if Unid r \<noteq> ''un'' then s + PL_pessoa r * FC r else s) s (map snd agg) =
         s + (\<Sum>(k, r)\<leftarrow>agg. if Unid r \<noteq> ''un'' then PL_pessoa r * FC r else 0)"
    by (induction agg) (auto simp: split_def)
  then show ?thesis by (simp add: served_total_per_person_g_def)
qed

lemma compute_rows_eq:
  "compute_rows ings recipe people target =
     (let ing_idx = ingredient_map ings;
          agg = recipe_groups ings recipe people;
          scale = recipe_scale ings recipe people target;
          rows = map (\<lambda>(k, r). group_row ing_idx scale r) agg;
          kcal_person = (\<Sum>(k, r)\<leftarrow>agg. case r_kcal_pessoa (group_row ing_idx scale r) of
                                          Some kc \<Rightarrow> kc | None \<Rightarrow> 0);
          total_served = (\<Sum>(k, r)\<leftarrow>agg. if Unid r \<noteq> ''un''
                                          then r_Peso_final_pessoa (group_row ing_idx scale r) else 0)
      in Inr (rows,
           \<lparr> kcal_por_pessoa = kcal_person,
             peso_servido_por_pessoa_g = total_served,
             kcal_por_grama = (if total_served > 0 then kcal_person / total_served else 0),
             kcal_por_200g = (if total_served > 0 then kcal_person / total_served * 200 else 0),
             kcal_totais_receita =
               (if total_served > 0
                then kcal_person * of_int (case rows of [] \<Rightarrow> people | rw # _ \<Rightarrow> r_Pessoas rw)
                else 0) \<rparr>))"
  by (simp add: compute_rows_def Let_def recipe_groups_def recipe_scale_def
      compute_scale_scale_of rows_loop_eq make_summary_eq)

lemma compute_rows_rows:
  assumes "compute_rows ings recipe people target = Inr (rows, s)"
  shows "rows = map (\<lambda>(k, r). group_row (ingredient_map ings) (recipe_scale ings recipe people target) r)
                  (recipe_groups ings recipe people)"
  using assms by (simp add: compute_rows_eq Let_def)

lemma compute_rows_total: "\<exists>rows s. compute_rows ings recipe people target = Inr (rows, s)"
  by (simp add: compute_rows_eq Let_def)

lemma compute_rows_row_cases:
  assumes "compute_rows ings recipe people target = Inr (rows, s)" and "rw \<in> set rows"
  obtains k r where "(k, r) \<in> set (recipe_groups ings recipe people)"
    and "rw = group_row (ingredient_map ings) (recipe_scale ings recipe people target) r"
  using assms by (auto simp: compute_rows_eq Let_def)

lemma group_row_sel:
  "r_Ingrediente (group_row ing_idx scale r) = Ingrediente r"
  "r_Un_compra (group_row ing_idx scale r) = UnitCompra r"
  "r_PL_pessoa (group_row ing_idx scale r) = PL_pessoa r * scale"
  "r_Un (group_row ing_idx scale r) = Unid r"
  "r_Pessoas (group_row ing_idx scale r) = Pessoas r"
  "r_PL_total (group_row ing_idx scale r) = PL_pessoa r * scale * of_int (Pessoas r)"
  "r_RL (group_row ing_idx scale r) = (if RL r > 0 then RL r else 1)"
  "r_PB_total (group_row ing_idx scale r) =
     PL_pessoa r * scale * of_int (Pessoas r) / (if RL r > 0 then RL r else 1)"
  "r_Qtd_compra (group_row ing_idx scale r) =
     (if UnitCompra r = ''kg'' \<and> Unid r = ''g''
      then PL_pessoa r * scale * of_int (Pessoas r) / (if RL r > 0 then RL r else 1) / 1000
      else PL_pessoa r * scale * of_int (Pessoas r) / (if RL r > 0 then RL r else 1))"
  "r_Preco (group_row ing_idx scale r) =
     (case ing_idx (Ingrediente r) of Some i \<Rightarrow> price i | None \<Rightarrow> None)"
  "r_Custo (group_row ing_idx scale r) =
     map_option (\<lambda>p. r_Qtd_compra (group_row ing_idx scale r) * p) (r_Preco (group_row ing_idx scale r))"
  "r_FC (group_row ing_idx scale r) = FC r"
  "r_Peso_final_pessoa (group_row ing_idx scale r) = PL_pessoa r * scale * FC r"
  "r_Peso_final_total (group_row ing_idx scale r) = PL_pessoa r * scale * of_int (Pessoas r) * FC r"
  "r_kcal_pessoa (group_row ing_idx scale r) =
     group_kcal ing_idx (Ingrediente r) (Unid r) (PL_pessoa r * scale * FC r)"
  "r_Obs (group_row ing_idx scale r) = Obs r"
  by (simp_all add: group_row_eq)

subsection \<open>Keys and (ingredient, unit) pairs\<close>

lemma key_of_inj:
  assumes "valid_unit (unit a)" and "valid_unit (unit b)" and "key_of a = key_of b"
  shows "ingredient a = ingredient b \<and> unit a = unit b"
proof -
  from assms(3) have "rev (ingredient a @ ''__'' @ unit a) = rev (ingredient b @ ''__'' @ unit b)"
    by (simp add: key_of_def)
  with assms(1,2) show ?thesis
    by (auto simp: valid_unit_def)
qed

lemma key_of_cong: "ingredient a = ingredient b \<Longrightarrow> unit a = unit b \<Longrightarrow> key_of a = key_of b"
  by (simp add: key_of_def)

lemma lines_of_hd:
  assumes "lines_of k its \<noteq> []"
  shows "hd (lines_of k its) \<in> set its \<and> key_of (hd (lines_of k its)) = k"
proof -
  from assms have "hd (lines_of k its) \<in> set (lines_of k its)" by simp
  then show ?thesis by (simp add: lines_of_def)
qed

lemma aggregate_entry:
  assumes "(k, r) \<in> set (aggregate ing_idx people its)"
  shows "lines_of k its \<noteq> [] \<and> r = group_of ing_idx people (lines_of k its)"
  using assms
  by (auto simp: aggregate_eq set_first_occurrences lines_of_empty_iff)

lemma aggregate_keys: "map fst (aggregate ing_idx people its) = first_occurrences (map key_of its)"
  by (simp add: aggregate_eq comp_def)

lemma aggregate_has_entry:
  assumes "it \<in> set its"
  shows "(key_of it, group_of ing_idx people (lines_of (key_of it) its)) \<in> set (aggregate ing_idx people its)"
  using assms by (auto simp: aggregate_eq set_first_occurrences)

lemma group_of_sel:
  "Ingrediente (group_of ing_idx people ls) = ingredient (hd ls)"
  "UnitCompra (group_of ing_idx people ls) =
     (case ing_idx (ingredient (hd ls)) of Some i \<Rightarrow> unitPurchase i | None \<Rightarrow> ''kg'')"
  "PL_pessoa (group_of ing_idx people ls) = sum_list (map perPersonPL ls)"
  "Unid (group_of ing_idx people ls) = unit (hd ls)"
  "Pessoas (group_of ing_idx people ls) = people"
  "RL (group_of ing_idx people ls) = (case ing_idx (ingredient (hd ls)) of Some i \<Rightarrow> rl i | None \<Rightarrow> 1)"
  "FC (group_of ing_idx people ls) = fc_or_one (last ls)"
  "Obs (group_of ing_idx people ls) = note_text (hd ls)"
  by (simp_all add: group_of_def)

lemma aggregate_entry_catalog:
  assumes "(k, r) \<in> set (aggregate ing_idx people its)"
  shows "Pessoas r = people"
    and "RL r = (case ing_idx (Ingrediente r) of Some i \<Rightarrow> rl i | None \<Rightarrow> 1)"
    and "UnitCompra r = (case ing_idx (Ingrediente r) of Some i \<Rightarrow> unitPurchase i | None \<Rightarrow> ''kg'')"
  using aggregate_entry [OF assms] by (simp_all add: group_of_sel)

subsection \<open>Claims about single rows\<close>

text \<open>
  Claim C3. For every row, the gross weight total is the net weight total divided by the
  effective yield (the \<^verbatim>\<open>RL\<close> column), and the purchase quantity is the gross weight total
  divided by 1000 when the purchase unit is \<^verbatim>\<open>kg\<close> and the consumption unit is \<^verbatim>\<open>g\<close>; it
  is the gross weight total unchanged for \<^verbatim>\<open>ml\<close>/\<^verbatim>\<open>ml\<close>, for \<^verbatim>\<open>un\<close>/\<^verbatim>\<open>un\<close> and for every other
  combination.
\<close>

theorem purchase_quantity_conversion:
  assumes "compute_rows ings recipe people target = Inr (rows, s)" and "rw \<in> set rows"
  shows "r_PB_total rw = r_PL_total rw / r_RL rw \<and>
         (r_Un_compra rw = ''kg'' \<and> r_Un rw = ''g'' \<longrightarrow> r_Qtd_compra rw = r_PB_total rw / 1000) \<and>
         (r_Un_compra rw = ''ml'' \<and> r_Un rw = ''ml'' \<longrightarrow> r_Qtd_compra rw = r_PB_total rw) \<and>
         (r_Un_compra rw = ''un'' \<and> r_Un rw = ''un'' \<longrightarrow> r_Qtd_compra rw = r_PB_total rw) \<and>
         (\<not> (r_Un_compra rw = ''kg'' \<and> r_Un rw = ''g'') \<longrightarrow> r_Qtd_compra rw = r_PB_total rw)"
proof -
  from assms obtain k r where "(k, r) \<in> set (recipe_groups ings recipe people)"
    and rw: "rw = group_row (ingredient_map ings) (recipe_scale ings recipe people target) r"
    by (rule compute_rows_row_cases)
  show ?thesis
    unfolding rw by (simp add: group_row_sel)
qed

text \<open>
  Claim C7. For every row, the price column is the price of the catalog ingredient of that
  name (null when the ingredient is missing), the cost is null if and only if the price is
  null, and a known price \<open>p\<close> gives the cost \<open>purchase quantity * p\<close>.
\<close>

theorem cost_null_iff_price_null:
  assumes "compute_rows ings recipe people target = Inr (rows, s)" and "rw \<in> set rows"
  shows "r_Preco rw = (case ingredient_map ings (r_Ingrediente rw) of
                         Some i \<Rightarrow> price i | None \<Rightarrow> None) \<and>
         (r_Custo rw = None \<longleftrightarrow> r_Preco rw = None) \<and>
         (\<forall>p. r_Preco rw = Some p \<longrightarrow> r_Custo rw = Some (r_Qtd_compra rw * p))"
proof -
  from assms obtain k r where "(k, r) \<in> set (recipe_groups ings recipe people)"
    and rw: "rw = group_row (ingredient_map ings) (recipe_scale ings recipe people target) r"
    by (rule compute_rows_row_cases)
  show ?thesis
    unfolding rw by (simp add: group_row_sel)
qed

text \<open>
  Claim C5. For every row, the served weight per person is the scaled net weight per person
  times the cooking factor. The calories per person are null when the ingredient is not in
  the catalog. With a catalog ingredient: for unit \<^verbatim>\<open>un\<close> they are \<open>kcal_per_unit\<close> times the
  served count, null without \<open>kcal_per_unit\<close>; for \<^verbatim>\<open>g\<close> they are \<open>kcal_per_100g * served / 100\<close>;
  for \<^verbatim>\<open>ml\<close> they are \<open>kcal_per_100g * (served * density) / 100\<close> with the density 1.0 when
  absent; for both, null without \<open>kcal_per_100g\<close>.
\<close>

theorem calories_per_person_for_group:
  assumes "compute_rows ings recipe people target = Inr (rows, s)" and "rw \<in> set rows"
  shows "r_Peso_final_pessoa rw = r_PL_pessoa rw * r_FC rw \<and>
         (ingredient_map ings (r_Ingrediente rw) = None \<longrightarrow> r_kcal_pessoa rw = None) \<and>
         (\<forall>ing. ingredient_map ings (r_Ingrediente rw) = Some ing \<longrightarrow>
            (r_Un rw = ''un'' \<longrightarrow>
               r_kcal_pessoa rw =
                 (case kcal_per_unit ing of
                    None \<Rightarrow> None
                  | Some ku \<Rightarrow> Some (ku * r_Peso_final_pessoa rw))) \<and>
            (r_Un rw = ''g'' \<longrightarrow>
               r_kcal_pessoa rw =
                 (case kcal_per_100g ing of
                    None \<Rightarrow> None
                  | Some k100 \<Rightarrow> Some (k100 * r_Peso_final_pessoa rw / 100))) \<and>
            (r_Un rw = ''ml'' \<longrightarrow>
               r_kcal_pessoa rw =
                 (case kcal_per_100g ing of
                    None \<Rightarrow> None
                  | Some k100 \<Rightarrow>
                      Some (k100 * (r_Peso_final_pessoa rw *
                              (case density_g_per_ml ing of Some d \<Rightarrow> d | None \<Rightarrow> 1)) / 100))))"
proof -
  from assms obtain k r where "(k, r) \<in> set (recipe_groups ings recipe people)"
    and rw: "rw = group_row (ingredient_map ings) (recipe_scale ings recipe people target) r"
    by (rule compute_rows_row_cases)
  show ?thesis
    unfolding rw by (simp add: group_row_sel group_kcal_def split: option.splits)
qed

text \<open>
  Claim C10. A recipe with no items, with any catalog, person count and target, gives no
  rows and a summary whose five fields are all 0.
\<close>

theorem empty_recipe:
  "compute_rows ings \<lparr> recipe_name = nm, items = [] \<rparr> people target =
     Inr ([], \<lparr> kcal_por_pessoa = 0, peso_servido_por_pessoa_g = 0, kcal_por_grama = 0,
                kcal_por_200g = 0, kcal_totais_receita = 0 \<rparr>)"
  by (simp add: compute_rows_def aggregate_def served_total_per_person_g_def compute_scale_def
      make_summary_def Let_def split: option.splits)

subsection \<open>Groups by (ingredient, unit) pair\<close>

lemma key_eq_iff_pair_eq:
  assumes "valid_units its" and "a \<in> set its" and "b \<in> set its"
  shows "key_of a = key_of b \<longleftrightarrow> pair_of a = pair_of b"
proof
  assume "key_of a = key_of b"
  moreover from assms have "valid_unit (unit a)" "valid_unit (unit b)"
    by (simp_all add: valid_units_def)
  ultimately have "ingredient a = ingredient b \<and> unit a = unit b"
    by (intro key_of_inj)
  then show "pair_of a = pair_of b" by (simp add: pair_of_def)
next
  assume "pair_of a = pair_of b"
  then show "key_of a = key_of b" by (simp add: pair_of_def key_of_def)
qed

lemma lines_of_pair:
  assumes "valid_units its" and "lines_of k its \<noteq> []"
  shows "lines_of k its = filter (\<lambda>it. pair_of it = pair_of (hd (lines_of k its))) its"
proof -
  define h where "h = hd (lines_of k its)"
  from lines_of_hd [OF assms(2)] have h: "h \<in> set its" "key_of h = k" by (simp_all add: h_def)
  have "\<And>it. it \<in> set its \<Longrightarrow> (key_of it = k) = (pair_of it = pair_of h)"
    using key_eq_iff_pair_eq [OF assms(1) _ h(1)] h(2) by simp
  then have "filter (\<lambda>it. key_of it = k) its = filter (\<lambda>it. pair_of it = pair_of h) its"
    by (intro filter_cong refl)
  then show ?thesis
    unfolding h_def [symmetric] by (simp only: lines_of_def)
qed

lemma first_occurrences_map_inj:
  "inj_on h (set xs) \<Longrightarrow> first_occurrences (map h xs) = map h (first_occurrences xs)"
proof (induction xs rule: rev_induct)
  case Nil
  show ?case by (simp add: first_occurrences_Nil)
next
  case (snoc x xs)
  from snoc.prems have inj: "inj_on h (set xs)" and mem: "h x \<in> h ` set xs \<longleftrightarrow> x \<in> set xs"
    by (auto simp: inj_on_def)
  show ?case
    using snoc.IH [OF inj] mem by (simp add: first_occurrences_snoc)
qed

lemma key_of_pair_key: "key_of it = pair_key (pair_of it)"
  by (simp add: key_of_def pair_key_def pair_of_def)

lemma pair_key_inj:
  assumes "valid_units its"
  shows "inj_on pair_key (set (map pair_of its))"
proof (rule inj_onI)
  fix p q
  assume "p \<in> set (map pair_of its)" and "q \<in> set (map pair_of its)"
    and e: "pair_key p = pair_key q"
  then obtain a b where a: "a \<in> set its" "p = pair_of a" and b: "b \<in> set its" "q = pair_of b"
    by auto
  from e have "key_of a = key_of b" by (simp add: key_of_pair_key a b)
  then show "p = q"
    using key_eq_iff_pair_eq [OF assms a(1) b(1)] a b by simp
qed

lemma hd_lines_of_pair:
  assumes "valid_units its" and "a \<in> set its"
  shows "pair_of (hd (lines_of (key_of a) its)) = pair_of a"
proof -
  have ne: "lines_of (key_of a) its \<noteq> []"
    using assms(2) by (simp add: lines_of_empty_iff)
  from lines_of_hd [OF ne]
  have h: "hd (lines_of (key_of a) its) \<in> set its"
    and k: "key_of (hd (lines_of (key_of a) its)) = key_of a" by simp_all
  from k show ?thesis
    by (simp only: key_eq_iff_pair_eq [OF assms(1) h assms(2)])
qed

lemma group_pairs:
  assumes "valid_units its"
  shows "map (\<lambda>(k, r). (Ingrediente r, Unid r)) (aggregate ing_idx people its) =
           first_occurrences (map pair_of its)"
proof -
  have keys: "first_occurrences (map key_of its) = map pair_key (first_occurrences (map pair_of its))"
  proof -
    have "map key_of its = map pair_key (map pair_of its)"
      by (simp add: key_of_pair_key)
    then show ?thesis
      by (simp only: first_occurrences_map_inj [OF pair_key_inj [OF assms]])
  qed
  have "map (\<lambda>(k, r). (Ingrediente r, Unid r)) (aggregate ing_idx people its) =
          map (\<lambda>p. pair_of (hd (lines_of (pair_key p) its))) (first_occurrences (map pair_of its))"
    by (simp add: aggregate_eq keys comp_def group_of_sel pair_of_def)
  also have "\<dots> = map (\<lambda>p. p) (first_occurrences (map pair_of its))"
  proof (rule map_cong [OF refl])
    fix p assume "p \<in> set (first_occurrences (map pair_of its))"
    then obtain a where a: "a \<in> set its" "p = pair_of a"
      by (auto simp: set_first_occurrences)
    show "pair_of (hd (lines_of (pair_key p) its)) = p"
      using hd_lines_of_pair [OF assms a(1)] by (simp add: a(2) key_of_pair_key)
  qed
  finally show ?thesis by simp
qed

lemma group_fields:
  assumes "valid_units its" and "(k, r) \<in> set (aggregate ing_idx people its)"
  shows "filter (\<lambda>it. pair_of it = (Ingrediente r, Unid r)) its \<noteq> []"
    and "PL_pessoa r = sum_list (map perPersonPL (filter (\<lambda>it. pair_of it = (Ingrediente r, Unid r)) its))"
    and "FC r = fc_or_one (last (filter (\<lambda>it. pair_of it = (Ingrediente r, Unid r)) its))"
    and "Obs r = note_text (hd (filter (\<lambda>it. pair_of it = (Ingrediente r, Unid r)) its))"
    and "valid_unit (Unid r)"
proof -
  from aggregate_entry [OF assms(2)]
  have ne: "lines_of k its \<noteq> []" and r: "r = group_of ing_idx people (lines_of k its)" by simp_all
  have pr: "(Ingrediente r, Unid r) = pair_of (hd (lines_of k its))"
    by (simp add: r group_of_sel pair_of_def)
  have ls: "filter (\<lambda>it. pair_of it = (Ingrediente r, Unid r)) its = lines_of k its"
    unfolding pr using lines_of_pair [OF assms(1) ne] by simp
  show "filter (\<lambda>it. pair_of it = (Ingrediente r, Unid r)) its \<noteq> []"
    unfolding ls by (rule ne)
  show "PL_pessoa r = sum_list (map perPersonPL (filter (\<lambda>it. pair_of it = (Ingrediente r, Unid r)) its))"
    unfolding ls by (simp add: r group_of_sel)
  show "FC r = fc_or_one (last (filter (\<lambda>it. pair_of it = (Ingrediente r, Unid r)) its))"
    unfolding ls by (simp add: r group_of_sel)
  show "Obs r = note_text (hd (filter (\<lambda>it. pair_of it = (Ingrediente r, Unid r)) its))"
    unfolding ls by (simp add: r group_of_sel)
  show "valid_unit (Unid r)"
    using lines_of_hd [OF ne] assms(1) by (simp add: r group_of_sel valid_units_def)
qed

subsection \<open>The summary\<close>

lemma recipe_groups_entry:
  assumes "(k, r) \<in> set (recipe_groups ings recipe people)"
  shows "Pessoas r = people"
    and "RL r = (case ingredient_map ings (Ingrediente r) of Some i \<Rightarrow> rl i | None \<Rightarrow> 1)"
    and "UnitCompra r = (case ingredient_map ings (Ingrediente r) of Some i \<Rightarrow> unitPurchase i | None \<Rightarrow> ''kg'')"
  using assms aggregate_entry_catalog [of k r "ingredient_map ings" people "items recipe"]
  by (simp_all add: recipe_groups_def)

lemma first_row_people:
  assumes "\<forall>(k, r) \<in> set agg. Pessoas r = people"
  shows "(case map (\<lambda>(k, r). group_row ing_idx scale r) agg of [] \<Rightarrow> people | rw # _ \<Rightarrow> r_Pessoas rw) = people"
  using assms by (cases agg) (auto simp: group_row_sel)

lemma compute_rows_summary:
  assumes "compute_rows ings recipe people target = Inr (rows, s)"
  shows "kcal_por_grama s = (if peso_servido_por_pessoa_g s > 0 then kcal_por_pessoa s / peso_servido_por_pessoa_g s else 0)"
    and "kcal_por_200g s = (if peso_servido_por_pessoa_g s > 0 then kcal_por_grama s * 200 else 0)"
    and "kcal_totais_receita s = (if peso_servido_por_pessoa_g s > 0 then kcal_por_pessoa s * of_int people else 0)"
    and "peso_servido_por_pessoa_g s =
           (\<Sum>(k, r)\<leftarrow>recipe_groups ings recipe people. if Unid r \<noteq> ''un''
              then PL_pessoa r * recipe_scale ings recipe people target * FC r else 0)"
    and "kcal_por_pessoa s =
           (\<Sum>(k, r)\<leftarrow>recipe_groups ings recipe people.
              case group_kcal (ingredient_map ings) (Ingrediente r) (Unid r)
                     (PL_pessoa r * recipe_scale ings recipe people target * FC r) of
                Some kc \<Rightarrow> kc | None \<Rightarrow> 0)"
proof -
  define KC where "KC = (\<Sum>(k, r)\<leftarrow>recipe_groups ings recipe people.
              case group_kcal (ingredient_map ings) (Ingrediente r) (Unid r)
                     (PL_pessoa r * recipe_scale ings recipe people target * FC r) of
                Some kc \<Rightarrow> kc | None \<Rightarrow> 0)"
  define TS where "TS = (\<Sum>(k, r)\<leftarrow>recipe_groups ings recipe people. if Unid r \<noteq> ''un''
              then PL_pessoa r * recipe_scale ings recipe people target * FC r else 0)"
  have fp: "(case map (\<lambda>(k, r). group_row (ingredient_map ings) (recipe_scale ings recipe people target) r)
                   (recipe_groups ings recipe people) of [] \<Rightarrow> people | rw # _ \<Rightarrow> r_Pessoas rw) = people"
    by (rule first_row_people) (auto dest: recipe_groups_entry(1))
  have "compute_rows ings recipe people target =
          Inr (map (\<lambda>(k, r). group_row (ingredient_map ings) (recipe_scale ings recipe people target) r)
                 (recipe_groups ings recipe people),
               \<lparr> kcal_por_pessoa = KC,
                 peso_servido_por_pessoa_g = TS,
                 kcal_por_grama = (if TS > 0 then KC / TS else 0),
                 kcal_por_200g = (if TS > 0 then KC / TS * 200 else 0),
                 kcal_totais_receita = (if TS > 0 then KC * of_int people else 0) \<rparr>)"
    unfolding KC_def TS_def compute_rows_eq Let_def fp by (simp add: group_row_sel cong: if_cong)
  with assms have s: "s = \<lparr> kcal_por_pessoa = KC,
                 peso_servido_por_pessoa_g = TS,
                 kcal_por_grama = (if TS > 0 then KC / TS else 0),
                 kcal_por_200g = (if TS > 0 then KC / TS * 200 else 0),
                 kcal_totais_receita = (if TS > 0 then KC * of_int people else 0) \<rparr>"
    by simp
  show "kcal_por_grama s = (if peso_servido_por_pessoa_g s > 0 then kcal_por_pessoa s / peso_servido_por_pessoa_g s else 0)"
    by (simp add: s)
  show "kcal_por_200g s = (if peso_servido_por_pessoa_g s > 0 then kcal_por_grama s * 200 else 0)"
    by (simp add: s)
  show "kcal_totais_receita s = (if peso_servido_por_pessoa_g s > 0 then kcal_por_pessoa s * of_int people else 0)"
    by (simp add: s)
  show "peso_servido_por_pessoa_g s =
           (\<Sum>(k, r)\<leftarrow>recipe_groups ings recipe people. if Unid r \<noteq> ''un''
              then PL_pessoa r * recipe_scale ings recipe people target * FC r else 0)"
    by (simp add: s TS_def)
  show "kcal_por_pessoa s =
           (\<Sum>(k, r)\<leftarrow>recipe_groups ings recipe people.
              case group_kcal (ingredient_map ings) (Ingrediente r) (Unid r)
                     (PL_pessoa r * recipe_scale ings recipe people target * FC r) of
                Some kc \<Rightarrow> kc | None \<Rightarrow> 0)"
    by (simp add: s KC_def)
qed

lemma served_total_valid:
  assumes "valid_units its"
  shows "served_total_per_person_g (aggregate ing_idx people its) =
           (\<Sum>(k, r)\<leftarrow>filter (\<lambda>(k, r). Unid r = ''g'' \<or> Unid r = ''ml'') (aggregate ing_idx people its).
              PL_pessoa r * FC r)"
proof -
  have "\<And>kr. kr \<in> set (aggregate ing_idx people its) \<Longrightarrow>
          (Unid (snd kr) \<noteq> ''un'') = (Unid (snd kr) = ''g'' \<or> Unid (snd kr) = ''ml'')"
  proof -
    fix kr assume "kr \<in> set (aggregate ing_idx people its)"
    then have "(fst kr, snd kr) \<in> set (aggregate ing_idx people its)" by simp
    from group_fields(5) [OF assms this] show "?thesis kr"
      by (auto simp: valid_unit_def)
  qed
  then have "map (\<lambda>kr. if Unid (snd kr) \<noteq> ''un'' then PL_pessoa (snd kr) * FC (snd kr) else 0)
                (aggregate ing_idx people its) =
             map (\<lambda>kr. if Unid (snd kr) = ''g'' \<or> Unid (snd kr) = ''ml''
                        then PL_pessoa (snd kr) * FC (snd kr) else 0)
                (aggregate ing_idx people its)"
    by (intro map_cong refl) simp
  then show ?thesis
    unfolding served_total_eq sum_list_map_filter' split_def by (rule arg_cong)
qed

lemma sum_list_scaled:
  "(\<Sum>(k, r)\<leftarrow>agg. if Unid r \<noteq> ''un'' then PL_pessoa r * c * FC r else 0) =
     c * (\<Sum>(k, r)\<leftarrow>agg. if Unid r \<noteq> ''un'' then PL_pessoa r * FC r else (0::real))"
  by (induction agg) (auto simp: algebra_simps)

text \<open>
  Claim C9. When every line has a unit of the data model, a target is given and positive,
  and the served weight per person before scaling, summed over the \<^verbatim>\<open>g\<close> and \<^verbatim>\<open>ml\<close> groups,
  is positive, then the computation returns and the summary's served weight per person
  equals the target (in exact arithmetic).
\<close>

theorem target_portion_attained:
  assumes "valid_units (items recipe)"
    and "target = Some t" and "t > 0"
    and "(\<Sum>(k, r)\<leftarrow>filter (\<lambda>(k, r). Unid r = ''g'' \<or> Unid r = ''ml'')
                      (aggregate (ingredient_map ings) people (items recipe)).
            PL_pessoa r * FC r) > 0"
  shows "\<exists>rows s. compute_rows ings recipe people target = Inr (rows, s) \<and>
           peso_servido_por_pessoa_g s = t"
proof -
  obtain rows s where c: "compute_rows ings recipe people target = Inr (rows, s)"
    using compute_rows_total by blast
  let ?served = "served_total_per_person_g (recipe_groups ings recipe people)"
  from assms(1,4) have pos: "?served > 0"
    by (simp add: recipe_groups_def served_total_valid)
  with assms(2,3) have sc: "recipe_scale ings recipe people target = t / ?served"
    by (simp add: recipe_scale_def scale_of_eq)
  have "peso_servido_por_pessoa_g s = (t / ?served) * ?served"
    unfolding compute_rows_summary(4) [OF c] sc sum_list_scaled served_total_eq ..
  with pos have "peso_servido_por_pessoa_g s = t" by simp
  with c show ?thesis by blast
qed

text \<open>
  Claim C2. When every line has a unit of the data model, the computation returns rows that
  follow the aggregated groups one to one, and each row's net weight per person is its
  group's net weight per person times the scale, unit-counted groups included. The scale is
  \<open>target / currentServedPerPerson\<close> when a target is given and positive and
  \<open>currentServedPerPerson > 0\<close>, and 1 otherwise, where \<open>currentServedPerPerson\<close> is the sum of
  net weight per person times cooking factor over the \<^verbatim>\<open>g\<close> and \<^verbatim>\<open>ml\<close> groups.
\<close>

theorem scale_factor:
  assumes "valid_units (items recipe)"
  shows "\<exists>rows s. compute_rows ings recipe people target = Inr (rows, s) \<and>
           map (\<lambda>rw. (r_Ingrediente rw, r_Un rw, r_PL_pessoa rw)) rows =
             map (\<lambda>(k, r). (Ingrediente r, Unid r,
                    PL_pessoa r *
                      (let currentServedPerPerson =
                             (\<Sum>(k, r)\<leftarrow>filter (\<lambda>(k, r). Unid r = ''g'' \<or> Unid r = ''ml'')
                                       (aggregate (ingredient_map ings) people (items recipe)).
                                PL_pessoa r * FC r)
                       in case target of
                            None \<Rightarrow> 1
                          | Some t \<Rightarrow> if t > 0 \<and> currentServedPerPerson > 0
                                      then t / currentServedPerPerson else 1)))
                 (aggregate (ingredient_map ings) people (items recipe))"
proof -
  obtain rows s where c: "compute_rows ings recipe people target = Inr (rows, s)"
    using compute_rows_total by blast
  have sc: "recipe_scale ings recipe people target =
              (let currentServedPerPerson =
                     (\<Sum>(k, r)\<leftarrow>filter (\<lambda>(k, r). Unid r = ''g'' \<or> Unid r = ''ml'')
                               (aggregate (ingredient_map ings) people (items recipe)).
                        PL_pessoa r * FC r)
               in case target of
                    None \<Rightarrow> 1
                  | Some t \<Rightarrow> if t > 0 \<and> currentServedPerPerson > 0
                              then t / currentServedPerPerson else 1)"
    by (simp add: recipe_scale_def scale_of_eq recipe_groups_def served_total_valid [OF assms] Let_def)
  have "map (\<lambda>rw. (r_Ingrediente rw, r_Un rw, r_PL_pessoa rw)) rows =
          map (\<lambda>(k, r). (Ingrediente r, Unid r, PL_pessoa r * recipe_scale ings recipe people target))
            (aggregate (ingredient_map ings) people (items recipe))"
    by (simp add: compute_rows_rows [OF c] recipe_groups_def comp_def split_def group_row_sel)
  with c show ?thesis
    unfolding sc by blast
qed

text \<open>
  Claim C6. No division has a zero divisor: the computation always returns a result and
  never \<open>ZeroDivisionError\<close>. In every row the divisor of the gross weight total (the \<^verbatim>\<open>RL\<close>
  column) is the group's yield ratio when that is positive and 1 otherwise, hence not zero.
  The summary's calories per gram, calories per 200 g and total recipe calories are
  computed from the quotient only when the served weight per person is positive, and are 0
  otherwise.
\<close>

theorem no_zero_divisor:
  "\<exists>rows s. compute_rows ings recipe people target = Inr (rows, s) \<and>
     (\<forall>rw \<in> set rows.
        r_RL rw = (let yieldRatio = (case ingredient_map ings (r_Ingrediente rw) of
                                      Some i \<Rightarrow> rl i | None \<Rightarrow> 1)
                   in if yieldRatio > 0 then yieldRatio else 1) \<and>
        r_RL rw \<noteq> 0 \<and>
        r_PB_total rw = r_PL_total rw / r_RL rw) \<and>
     (if peso_servido_por_pessoa_g s > 0
      then kcal_por_grama s = kcal_por_pessoa s / peso_servido_por_pessoa_g s \<and>
           kcal_por_200g s = kcal_por_grama s * 200 \<and>
           kcal_totais_receita s = kcal_por_pessoa s * of_int people
      else kcal_por_grama s = 0 \<and> kcal_por_200g s = 0 \<and> kcal_totais_receita s = 0)"
proof -
  obtain rows s where c: "compute_rows ings recipe people target = Inr (rows, s)"
    using compute_rows_total by blast
  have "r_RL rw = (let yieldRatio = (case ingredient_map ings (r_Ingrediente rw) of
                                      Some i \<Rightarrow> rl i | None \<Rightarrow> 1)
                   in if yieldRatio > 0 then yieldRatio else 1) \<and>
        r_RL rw \<noteq> 0 \<and>
        r_PB_total rw = r_PL_total rw / r_RL rw" if "rw \<in> set rows" for rw
  proof -
    from c that obtain k r where kr: "(k, r) \<in> set (recipe_groups ings recipe people)"
      and rw: "rw = group_row (ingredient_map ings) (recipe_scale ings recipe people target) r"
      by (rule compute_rows_row_cases)
    show ?thesis
      unfolding rw by (simp add: group_row_sel recipe_groups_entry(2) [OF kr, symmetric] Let_def)
  qed
  moreover have "if peso_servido_por_pessoa_g s > 0
      then kcal_por_grama s = kcal_por_pessoa s / peso_servido_por_pessoa_g s \<and>
           kcal_por_200g s = kcal_por_grama s * 200 \<and>
           kcal_totais_receita s = kcal_por_pessoa s * of_int people
      else kcal_por_grama s = 0 \<and> kcal_por_200g s = 0 \<and> kcal_totais_receita s = 0"
    using compute_rows_summary(1-3) [OF c] by simp
  ultimately show ?thesis using c by blast
qed

text \<open>
  Claim C4. When every line has a unit of the data model, a recipe line whose ingredient is
  not in the catalog still has a row for its group: a row with that ingredient and unit, the
  yield 1.0, the purchase unit \<^verbatim>\<open>kg\<close>, and null price, cost and calories.
\<close>

theorem missing_ingredient_defaults:
  assumes "valid_units (items recipe)"
    and "it \<in> set (items recipe)"
    and "ingredient_map ings (ingredient it) = None"
  shows "\<exists>rows s rw. compute_rows ings recipe people target = Inr (rows, s) \<and>
           rw \<in> set rows \<and>
           r_Ingrediente rw = ingredient it \<and> r_Un rw = unit it \<and>
           r_RL rw = 1 \<and> r_Un_compra rw = ''kg'' \<and>
           r_Preco rw = None \<and> r_Custo rw = None \<and> r_kcal_pessoa rw = None"
proof -
  obtain rows s where c: "compute_rows ings recipe people target = Inr (rows, s)"
    using compute_rows_total by blast
  define r where "r = group_of (ingredient_map ings) people (lines_of (key_of it) (items recipe))"
  define rw where "rw = group_row (ingredient_map ings) (recipe_scale ings recipe people target) r"
  have mem: "(key_of it, r) \<in> set (recipe_groups ings recipe people)"
    unfolding r_def recipe_groups_def by (rule aggregate_has_entry [OF assms(2)])
  then have "rw \<in> set rows"
    unfolding compute_rows_rows [OF c] rw_def by force
  moreover from hd_lines_of_pair [OF assms(1,2)]
  have ir: "Ingrediente r = ingredient it" and ur: "Unid r = unit it"
    by (simp_all add: r_def group_of_sel pair_of_def)
  have "r_Ingrediente rw = ingredient it \<and> r_Un rw = unit it \<and>
           r_RL rw = 1 \<and> r_Un_compra rw = ''kg'' \<and>
           r_Preco rw = None \<and> r_Custo rw = None \<and> r_kcal_pessoa rw = None"
    using assms(3) recipe_groups_entry(2,3) [OF mem]
    by (simp add: rw_def group_row_sel ir ur group_kcal_def)
  ultimately show ?thesis using c by blast
qed

subsection \<open>Linearity in the person count\<close>

lemma aggregate_people:
  "aggregate ing_idx people2 its =
     map (\<lambda>(k, r). (k, r\<lparr> Pessoas := people2 \<rparr>)) (aggregate ing_idx people its)"
  by (simp add: aggregate_eq [of ing_idx people2] aggregate_eq [of ing_idx people] comp_def group_of_def)

lemma served_total_people:
  "served_total_per_person_g (aggregate ing_idx people2 its) =
     served_total_per_person_g (aggregate ing_idx people its)"
  by (subst aggregate_people [of ing_idx people2 its people])
     (simp add: served_total_eq comp_def split_def cong: if_cong)

lemma recipe_scale_people:
  "recipe_scale ings recipe people2 target = recipe_scale ings recipe people target"
  by (simp add: recipe_scale_def recipe_groups_def served_total_people [of _ people2 _ people])

lemma list_all2_mapsI:
  assumes "\<And>x. x \<in> set xs \<Longrightarrow> P (f x) (g x)"
  shows "list_all2 P (map f xs) (map g xs)"
  using assms by (simp add: list_all2_map1 list_all2_map2 list_all2_same)

lemma group_row_double:
  fixes r :: agg_entry
  defines "r2 \<equiv> r\<lparr> Pessoas := 2 * Pessoas r \<rparr>"
  shows "r_PL_total (group_row ing_idx sc r2) = 2 * r_PL_total (group_row ing_idx sc r)"
    and "r_PB_total (group_row ing_idx sc r2) = 2 * r_PB_total (group_row ing_idx sc r)"
    and "r_Qtd_compra (group_row ing_idx sc r2) = 2 * r_Qtd_compra (group_row ing_idx sc r)"
    and "r_Custo (group_row ing_idx sc r2) = map_option (\<lambda>c. 2 * c) (r_Custo (group_row ing_idx sc r))"
    and "r_Peso_final_total (group_row ing_idx sc r2) = 2 * r_Peso_final_total (group_row ing_idx sc r)"
    and "r_PL_pessoa (group_row ing_idx sc r2) = r_PL_pessoa (group_row ing_idx sc r)"
    and "r_Peso_final_pessoa (group_row ing_idx sc r2) = r_Peso_final_pessoa (group_row ing_idx sc r)"
    and "r_kcal_pessoa (group_row ing_idx sc r2) = r_kcal_pessoa (group_row ing_idx sc r)"
proof -
  show "r_PL_total (group_row ing_idx sc r2) = 2 * r_PL_total (group_row ing_idx sc r)"
    by (simp add: r2_def group_row_sel(6))
  show "r_PB_total (group_row ing_idx sc r2) = 2 * r_PB_total (group_row ing_idx sc r)"
    by (simp add: r2_def group_row_sel(8))
  show q: "r_Qtd_compra (group_row ing_idx sc r2) = 2 * r_Qtd_compra (group_row ing_idx sc r)"
    by (simp add: r2_def group_row_sel(9))
  have pr: "r_Preco (group_row ing_idx sc r2) = r_Preco (group_row ing_idx sc r)"
    by (simp add: r2_def group_row_sel(10))
  show "r_Custo (group_row ing_idx sc r2) = map_option (\<lambda>c. 2 * c) (r_Custo (group_row ing_idx sc r))"
    unfolding group_row_sel(11) q pr
    by (cases "r_Preco (group_row ing_idx sc r)") simp_all
  show "r_Peso_final_total (group_row ing_idx sc r2) = 2 * r_Peso_final_total (group_row ing_idx sc r)"
    by (simp add: r2_def group_row_sel(14))
  show "r_PL_pessoa (group_row ing_idx sc r2) = r_PL_pessoa (group_row ing_idx sc r)"
    by (simp add: r2_def group_row_sel(3))
  show "r_Peso_final_pessoa (group_row ing_idx sc r2) = r_Peso_final_pessoa (group_row ing_idx sc r)"
    by (simp add: r2_def group_row_sel(13))
  show "r_kcal_pessoa (group_row ing_idx sc r2) = r_kcal_pessoa (group_row ing_idx sc r)"
    by (simp add: r2_def group_row_sel(15))
qed

text \<open>
  Claim C8. For every catalog, recipe, person count and target, both the computation and
  the computation with twice the person count return; their rows correspond one to one, and
  in the second every total (net weight total, gross weight total, purchase quantity, cost,
  served weight total, total recipe calories) is twice that of the first while every
  per-person field (scaled net weight, served weight and calories per person, and the
  summary's calories per person, served weight per person, calories per gram and per 200 g)
  is the same.
\<close>

theorem person_count_linearity:
  "\<exists>rows s rows2 s2.
     compute_rows ings recipe people target = Inr (rows, s) \<and>
     compute_rows ings recipe (2 * people) target = Inr (rows2, s2) \<and>
     list_all2 (\<lambda>rw rw2.
        r_PL_total rw2 = 2 * r_PL_total rw \<and>
        r_PB_total rw2 = 2 * r_PB_total rw \<and>
        r_Qtd_compra rw2 = 2 * r_Qtd_compra rw \<and>
        r_Custo rw2 = map_option (\<lambda>c. 2 * c) (r_Custo rw) \<and>
        r_Peso_final_total rw2 = 2 * r_Peso_final_total rw \<and>
        r_PL_pessoa rw2 = r_PL_pessoa rw \<and>
        r_Peso_final_pessoa rw2 = r_Peso_final_pessoa rw \<and>
        r_kcal_pessoa rw2 = r_kcal_pessoa rw) rows rows2 \<and>
     kcal_totais_receita s2 = 2 * kcal_totais_receita s \<and>
     kcal_por_pessoa s2 = kcal_por_pessoa s \<and>
     peso_servido_por_pessoa_g s2 = peso_servido_por_pessoa_g s \<and>
     kcal_por_grama s2 = kcal_por_grama s \<and>
     kcal_por_200g s2 = kcal_por_200g s"
proof -
  obtain rows s where c: "compute_rows ings recipe people target = Inr (rows, s)"
    using compute_rows_total by blast
  obtain rows2 s2 where c2: "compute_rows ings recipe (2 * people) target = Inr (rows2, s2)"
    using compute_rows_total by blast
  let ?idx = "ingredient_map ings" and ?sc = "recipe_scale ings recipe people target"
  let ?agg = "recipe_groups ings recipe people"
  have agg2: "recipe_groups ings recipe (2 * people) = map (\<lambda>(k, r). (k, r\<lparr> Pessoas := 2 * people \<rparr>)) ?agg"
    unfolding recipe_groups_def by (rule aggregate_people)
  have sc2: "recipe_scale ings recipe (2 * people) target = ?sc"
    by (rule recipe_scale_people)
  have rows: "rows = map (\<lambda>kr. group_row ?idx ?sc (snd kr)) ?agg"
    unfolding compute_rows_rows [OF c] by (simp add: split_def)
  have rows2: "rows2 = map (\<lambda>kr. group_row ?idx ?sc ((snd kr)\<lparr> Pessoas := 2 * people \<rparr>)) ?agg"
    unfolding compute_rows_rows [OF c2] sc2 agg2 by (simp add: comp_def split_def)
  have "list_all2 (\<lambda>rw rw2.
        r_PL_total rw2 = 2 * r_PL_total rw \<and>
        r_PB_total rw2 = 2 * r_PB_total rw \<and>
        r_Qtd_compra rw2 = 2 * r_Qtd_compra rw \<and>
        r_Custo rw2 = map_option (\<lambda>c. 2 * c) (r_Custo rw) \<and>
        r_Peso_final_total rw2 = 2 * r_Peso_final_total rw \<and>
        r_PL_pessoa rw2 = r_PL_pessoa rw \<and>
        r_Peso_final_pessoa rw2 = r_Peso_final_pessoa rw \<and>
        r_kcal_pessoa rw2 = r_kcal_pessoa rw) rows rows2"
    unfolding rows rows2
  proof (rule list_all2_mapsI, goal_cases)
    case (1 kr)
    then have "(fst kr, snd kr) \<in> set ?agg" by simp
    from recipe_groups_entry(1) [OF this] have p: "Pessoas (snd kr) = people" .
    from group_row_double [of ?idx ?sc "snd kr"] show ?case
      unfolding p by simp
  qed
  moreover have pp: "kcal_por_pessoa s2 = kcal_por_pessoa s"
    unfolding compute_rows_summary(5) [OF c] compute_rows_summary(5) [OF c2] sc2 agg2
    by (simp add: comp_def split_def)
  moreover have ps: "peso_servido_por_pessoa_g s2 = peso_servido_por_pessoa_g s"
    unfolding compute_rows_summary(4) [OF c] compute_rows_summary(4) [OF c2] sc2 agg2
    by (simp add: comp_def split_def cong: if_cong)
  moreover have "kcal_por_grama s2 = kcal_por_grama s"
    unfolding compute_rows_summary(1) [OF c] compute_rows_summary(1) [OF c2] pp ps ..
  moreover have "kcal_por_200g s2 = kcal_por_200g s"
    unfolding compute_rows_summary(2) [OF c] compute_rows_summary(2) [OF c2]
      compute_rows_summary(1) [OF c] compute_rows_summary(1) [OF c2] pp ps ..
  moreover have "kcal_totais_receita s2 = 2 * kcal_totais_receita s"
    unfolding compute_rows_summary(3) [OF c] compute_rows_summary(3) [OF c2] pp ps by simp
  ultimately show ?thesis using c c2 by blast
qed

subsection \<open>Aggregation, and the samples evaluated\<close>

lemmas eval_defs =
  compute_rows_def ingredient_map_def aggregate_def agg_step_def key_of_def fc_or_one_def
  served_total_per_person_g_def compute_scale_def py_div_def row_of_def kcal_for_item_def
  make_summary_def Let_def sample_chicken_def sample_egg_def chicken_recipe_def mixed_recipe_def

lemma chicken_eval:
  "compute_rows [sample_chicken] chicken_recipe 1 None = Inr ([chicken_row], chicken_summary)"
  by (simp add: eval_defs chicken_row_def chicken_summary_def)

lemma mixed_valid: "valid_units (items mixed_recipe)"
  by (simp add: valid_units_def valid_unit_def mixed_recipe_def)

text \<open>
  Claim C1, as amended. When every line has a unit of the data model, the lines of a recipe
  are aggregated by their (ingredient, unit) pair: the groups are in the order in which their
  pairs first occur; each group has at least one line, its net weight per person is the sum
  over its lines, its cooking factor is that of the last of its lines (a factor of 0 counting
  as 1.0), and its note is that of the \<^emph>\<open>first\<close> of its lines. The computation returns rows
  that follow the groups one to one, in the same order, with the group's ingredient, unit,
  cooking factor and note.
\<close>

theorem aggregation_by_pair:
  assumes "valid_units (items recipe)"
  shows "map (\<lambda>(k, r). (Ingrediente r, Unid r)) (aggregate (ingredient_map ings) people (items recipe)) =
           first_occurrences (map pair_of (items recipe)) \<and>
         (\<forall>(k, r) \<in> set (aggregate (ingredient_map ings) people (items recipe)).
            let ls = filter (\<lambda>it. pair_of it = (Ingrediente r, Unid r)) (items recipe)
            in ls \<noteq> [] \<and>
               PL_pessoa r = sum_list (map perPersonPL ls) \<and>
               FC r = fc_or_one (last ls) \<and>
               Obs r = note_text (hd ls)) \<and>
         (\<exists>rows s. compute_rows ings recipe people target = Inr (rows, s) \<and>
            map (\<lambda>rw. (r_Ingrediente rw, r_Un rw, r_FC rw, r_Obs rw)) rows =
              map (\<lambda>(k, r). (Ingrediente r, Unid r, FC r, Obs r))
                (aggregate (ingredient_map ings) people (items recipe)))"
proof (intro conjI)
  show "map (\<lambda>(k, r). (Ingrediente r, Unid r)) (aggregate (ingredient_map ings) people (items recipe)) =
           first_occurrences (map pair_of (items recipe))"
    by (rule group_pairs [OF assms])
  show "\<forall>(k, r) \<in> set (aggregate (ingredient_map ings) people (items recipe)).
            let ls = filter (\<lambda>it. pair_of it = (Ingrediente r, Unid r)) (items recipe)
            in ls \<noteq> [] \<and>
               PL_pessoa r = sum_list (map perPersonPL ls) \<and>
               FC r = fc_or_one (last ls) \<and>
               Obs r = note_text (hd ls)"
    using group_fields(1-4) [OF assms] unfolding Let_def by blast
  obtain rows s where c: "compute_rows ings recipe people target = Inr (rows, s)"
    using compute_rows_total by blast
  have "map (\<lambda>rw. (r_Ingrediente rw, r_Un rw, r_FC rw, r_Obs rw)) rows =
          map (\<lambda>(k, r). (Ingrediente r, Unid r, FC r, Obs r))
            (aggregate (ingredient_map ings) people (items recipe))"
    by (simp add: compute_rows_rows [OF c] recipe_groups_def comp_def split_def group_row_sel)
  with c show "\<exists>rows s. compute_rows ings recipe people target = Inr (rows, s) \<and>
            map (\<lambda>rw. (r_Ingrediente rw, r_Un rw, r_FC rw, r_Obs rw)) rows =
              map (\<lambda>(k, r). (Ingrediente r, Unid r, FC r, Obs r))
                (aggregate (ingredient_map ings) people (items recipe))"
    by blast
qed

lemma mixed_agg:
  "aggregate (ingredient_map [sample_chicken, sample_egg]) 2 (items mixed_recipe) =
     [(''Peito de frango__g'',
        \<lparr> Ingrediente = ''Peito de frango'', UnitCompra = ''kg'', PL_pessoa = 150, Unid = ''g'',
          Pessoas = 2, RL = 9 / 10, FC = 1 / 2, Obs = ''grelhado'' \<rparr>),
      (''Ovo__un'',
        \<lparr> Ingrediente = ''Ovo'', UnitCompra = ''un'', PL_pessoa = 1, Unid = ''un'',
          Pessoas = 2, RL = 1, FC = 1, Obs = ''cozido'' \<rparr>),
      (''Sal__g'',
        \<lparr> Ingrediente = ''Sal'', UnitCompra = ''kg'', PL_pessoa = 5, Unid = ''g'',
          Pessoas = 2, RL = 1, FC = 1, Obs = '''' \<rparr>)]"
  by (simp add: eval_defs)

text \<open>
  Claim C1, instance: the sample recipe has two lines for (Peito de frango, g); their group
  has the summed weight, the last factor and the first note.
\<close>

theorem aggregation_by_pair_witness:
  "valid_units (items mixed_recipe) \<and>
   map (\<lambda>(k, r). (Ingrediente r, Unid r, PL_pessoa r, FC r, Obs r))
     (aggregate (ingredient_map [sample_chicken, sample_egg]) 2 (items mixed_recipe)) =
     [(''Peito de frango'', ''g'', 100 + 50, 0.5, ''grelhado''),
      (''Ovo'', ''un'', 1, 1, ''cozido''),
      (''Sal'', ''g'', 5, 1, '''')] \<and>
   first_occurrences (map pair_of (items mixed_recipe)) =
     [(''Peito de frango'', ''g''), (''Ovo'', ''un''), (''Sal'', ''g'')]"
  using aggregation_by_pair [OF mixed_valid, of "[sample_chicken, sample_egg]" 2 None]
  by (simp add: mixed_valid mixed_agg)

text \<open>
  Claim C1 as stated fails for the note: two lines for (Ovo, un) with the notes
  \<^verbatim>\<open>cozido\<close> and \<^verbatim>\<open>frito\<close> give one row, and its note is \<^verbatim>\<open>cozido\<close>, not the last one.
\<close>

theorem last_note_counterexample:
  "map pair_of (items egg_recipe) = [(''Ovo'', ''un''), (''Ovo'', ''un'')] \<and>
   note_text (last (items egg_recipe)) = ''frito'' \<and>
   map r_Obs (fst (projr (compute_rows [sample_egg] egg_recipe 1 None))) = [''cozido'']"
  by (simp add: eval_defs pair_of_def egg_recipe_def)

lemma salt_line_mem: "salt_line \<in> set (items mixed_recipe)"
  by (simp add: salt_line_def mixed_recipe_def)

lemma mixed_current:
  "(\<Sum>(k, r)\<leftarrow>filter (\<lambda>(k, r). Unid r = ''g'' \<or> Unid r = ''ml'')
               (aggregate (ingredient_map [sample_chicken, sample_egg]) 2 (items mixed_recipe)).
      PL_pessoa r * FC r) = 80"
  by (simp add: mixed_agg)

text \<open>Claim C2, instance: served 80 g before scaling, target 160 g, scale 2 on all three groups.\<close>

theorem scale_factor_witness:
  "valid_units (items mixed_recipe) \<and>
   (\<exists>rows s. compute_rows [sample_chicken, sample_egg] mixed_recipe 2 (Some 160) = Inr (rows, s) \<and>
      map (\<lambda>rw. (r_Ingrediente rw, r_Un rw, r_PL_pessoa rw)) rows =
        [(''Peito de frango'', ''g'', 150 * (160 / 80)),
         (''Ovo'', ''un'', 1 * (160 / 80)),
         (''Sal'', ''g'', 5 * (160 / 80))])"
  using scale_factor [OF mixed_valid, of "[sample_chicken, sample_egg]" 2 "Some 160"]
  by (simp add: mixed_valid mixed_agg)

text \<open>Claim C3, instance: chicken bought by the kg and used by the gram.\<close>

theorem purchase_quantity_conversion_witness:
  "compute_rows [sample_chicken] chicken_recipe 1 None = Inr ([chicken_row], chicken_summary) \<and>
   chicken_row \<in> set [chicken_row] \<and>
   r_Un_compra chicken_row = ''kg'' \<and> r_Un chicken_row = ''g'' \<and>
   r_PB_total chicken_row = r_PL_total chicken_row / r_RL chicken_row \<and>
   r_Qtd_compra chicken_row = r_PB_total chicken_row / 1000"
  using purchase_quantity_conversion [OF chicken_eval, of chicken_row] chicken_eval
  by (simp add: chicken_row_def)

text \<open>Claim C4, instance: the line for \<^verbatim>\<open>Sal\<close>, which the catalog does not have.\<close>

theorem missing_ingredient_defaults_witness:
  "valid_units (items mixed_recipe) \<and>
   salt_line \<in> set (items mixed_recipe) \<and>
   ingredient_map [sample_chicken, sample_egg] (ingredient salt_line) = None \<and>
   (\<exists>rows s rw.
      compute_rows [sample_chicken, sample_egg] mixed_recipe 2 None = Inr (rows, s) \<and>
      rw \<in> set rows \<and> r_Ingrediente rw = ''Sal'' \<and> r_Un rw = ''g'' \<and>
      r_RL rw = 1 \<and> r_Un_compra rw = ''kg'' \<and>
      r_Preco rw = None \<and> r_Custo rw = None \<and> r_kcal_pessoa rw = None)"
proof -
  have h: "ingredient_map [sample_chicken, sample_egg] (ingredient salt_line) = None"
    by (simp add: ingredient_map_def sample_chicken_def sample_egg_def salt_line_def)
  from missing_ingredient_defaults [OF mixed_valid salt_line_mem h, of 2 None]
  show ?thesis
    using mixed_valid salt_line_mem h by (simp add: salt_line_def)
qed

text \<open>Claim C5, instance: 132 g of served chicken at 165 kcal per 100 g.\<close>

theorem calories_per_person_for_group_witness:
  "compute_rows [sample_chicken] chicken_recipe 1 None = Inr ([chicken_row], chicken_summary) \<and>
   chicken_row \<in> set [chicken_row] \<and>
   ingredient_map [sample_chicken] (r_Ingrediente chicken_row) = Some sample_chicken \<and>
   r_Un chicken_row = ''g'' \<and>
   r_Peso_final_pessoa chicken_row = r_PL_pessoa chicken_row * r_FC chicken_row \<and>
   r_kcal_pessoa chicken_row = Some (165 * r_Peso_final_pessoa chicken_row / 100)"
proof -
  have h: "ingredient_map [sample_chicken] (r_Ingrediente chicken_row) = Some sample_chicken"
    by (simp add: ingredient_map_def sample_chicken_def chicken_row_def)
  have u: "r_Un chicken_row = ''g''" and k: "kcal_per_100g sample_chicken = Some 165"
    by (simp_all add: chicken_row_def sample_chicken_def)
  from calories_per_person_for_group [OF chicken_eval, of chicken_row]
  show ?thesis
    using chicken_eval h u k by simp
qed

text \<open>Claim C6, instance: the chicken row divides by the yield 0.9, the summary by 132.\<close>

theorem no_zero_divisor_witness:
  "compute_rows [sample_chicken] chicken_recipe 1 None = Inr ([chicken_row], chicken_summary) \<and>
   r_RL chicken_row = rl sample_chicken \<and> r_RL chicken_row \<noteq> 0 \<and>
   r_PB_total chicken_row = r_PL_total chicken_row / r_RL chicken_row \<and>
   peso_servido_por_pessoa_g chicken_summary > 0 \<and>
   kcal_por_grama chicken_summary =
     kcal_por_pessoa chicken_summary / peso_servido_por_pessoa_g chicken_summary"
  using no_zero_divisor [of "[sample_chicken]" chicken_recipe 1 None] chicken_eval
  by (simp add: chicken_row_def chicken_summary_def sample_chicken_def)

text \<open>Claim C7, instance: the chicken row has the price 22.90 and the cost quantity times price.\<close>

theorem cost_null_iff_price_null_witness:
  "compute_rows [sample_chicken] chicken_recipe 1 None = Inr ([chicken_row], chicken_summary) \<and>
   chicken_row \<in> set [chicken_row] \<and>
   r_Preco chicken_row = price sample_chicken \<and>
   r_Custo chicken_row = Some (r_Qtd_compra chicken_row * 22.90)"
  using cost_null_iff_price_null [OF chicken_eval, of chicken_row] chicken_eval
  by (simp add: chicken_row_def sample_chicken_def)

text \<open>Claim C9, instance: target 160 g on the sample recipe.\<close>

theorem target_portion_attained_witness:
  "valid_units (items mixed_recipe) \<and> (0::real) < 160 \<and>
   (\<Sum>(k, r)\<leftarrow>filter (\<lambda>(k, r). Unid r = ''g'' \<or> Unid r = ''ml'')
               (aggregate (ingredient_map [sample_chicken, sample_egg]) 2 (items mixed_recipe)).
      PL_pessoa r * FC r) = 80 \<and>
   (\<exists>rows s. compute_rows [sample_chicken, sample_egg] mixed_recipe 2 (Some 160) = Inr (rows, s) \<and>
      peso_servido_por_pessoa_g s = 160)"
proof -
  have pos: "(0::real) < 160" by simp
  have cur: "0 < (\<Sum>(k, r)\<leftarrow>filter (\<lambda>(k, r). Unid r = ''g'' \<or> Unid r = ''ml'')
               (aggregate (ingredient_map [sample_chicken, sample_egg]) 2 (items mixed_recipe)).
      PL_pessoa r * FC r)"
    unfolding mixed_current by simp
  from target_portion_attained [OF mixed_valid refl pos cur]
  show ?thesis
    using mixed_valid mixed_current by simp
qed

end
